theory Spec2Isabelle
  imports Complex_Main
begin

section \<open>Configuration (config.py)\<close>

text \<open>
  The module-level constants of \<^verbatim>\<open>config.py\<close> that the pipeline reads. The functions below
  take the configuration as an explicit argument, so every theorem holds for any setting of
  the constants; \<open>config\<close> is the setting of the repository.
\<close>

record config =
  NUM_JOBS :: int
  HTML_FILE_LIMIT :: int
  MAX_RETRIES :: int

definition config :: config where
  "config = \<lparr>NUM_JOBS = 1000, HTML_FILE_LIMIT = 90, MAX_RETRIES = 3\<rparr>"

section \<open>Progress tracker (progress\_tracker.py)\<close>

text \<open>
  \<^verbatim>\<open>ProgressTracker.__init__\<close> stores the two ceilings and zeroes the counters and flags.
  Every update method runs under \<^verbatim>\<open>self.lock\<close>, so a call is one atomic state change.
\<close>

record tracker =
  total_jobs :: int
  html_file_limit :: int
  fetched :: int
  scraped :: int
  downloaded :: int
  fetching_done :: bool
  scraping_done :: bool
  downloading_done :: bool

definition ProgressTracker :: "int \<Rightarrow> int \<Rightarrow> tracker" where
  "ProgressTracker n m =
     \<lparr>total_jobs = n, html_file_limit = m,
      fetched = 0, scraped = 0, downloaded = 0,
      fetching_done = False, scraping_done = False, downloading_done = False\<rparr>"

definition update_fetch :: "tracker \<Rightarrow> tracker" where
  "update_fetch p =
     (let p1 = (if fetched p < total_jobs p then p\<lparr>fetched := fetched p + 1\<rparr> else p)
      in if fetched p1 = total_jobs p1 \<and> \<not> fetching_done p1
         then p1\<lparr>fetching_done := True\<rparr> else p1)"

definition update_scrape :: "tracker \<Rightarrow> tracker" where
  "update_scrape p =
     (if \<not> fetching_done p then p
      else
        let p1 = (if scraped p < fetched p then p\<lparr>scraped := scraped p + 1\<rparr> else p)
        in if scraped p1 = total_jobs p1 \<and> \<not> scraping_done p1
           then p1\<lparr>scraping_done := True\<rparr> else p1)"

definition update_download :: "tracker \<Rightarrow> tracker" where
  "update_download p =
     (if downloaded p < html_file_limit p then p\<lparr>downloaded := downloaded p + 1\<rparr> else p)"

text \<open>A sequence of calls on one tracker, applied left to right.\<close>

datatype tracker_call = UpdateFetch | UpdateScrape | UpdateDownload

fun apply_call :: "tracker \<Rightarrow> tracker_call \<Rightarrow> tracker" where
  "apply_call p UpdateFetch = update_fetch p"
| "apply_call p UpdateScrape = update_scrape p"
| "apply_call p UpdateDownload = update_download p"

definition run_calls :: "tracker \<Rightarrow> tracker_call list \<Rightarrow> tracker" where
  "run_calls p cs = foldl apply_call p cs"

definition tracker_inv :: "tracker \<Rightarrow> bool" where
  "tracker_inv p \<longleftrightarrow>
     0 \<le> scraped p \<and> scraped p \<le> fetched p \<and> fetched p \<le> total_jobs p \<and>
     0 \<le> downloaded p \<and> downloaded p \<le> html_file_limit p"

text \<open>
  \<^verbatim>\<open>ProgressTracker.complete\<close>: the polling loop
  \<^verbatim>\<open>while not self.downloading_done and retries < max_retries\<close>, whose body logs the
  ``Still waiting'' line and sleeps; the body assigns neither variable of the condition.
  \<open>flag t\<close> is the value of \<^verbatim>\<open>self.downloading_done\<close> at the \<open>t\<close>-th evaluation of the
  condition (another thread may set it between two polls). The loop may run forever, so it
  is a partial function: \<open>None\<close> is ``never returns'', \<open>Some t\<close> is ``left the loop after
  \<open>t\<close> iterations''.
\<close>

definition max_retries :: int where
  "max_retries = 10"

partial_function (option) complete_loop :: "(nat \<Rightarrow> bool) \<Rightarrow> nat \<Rightarrow> int \<Rightarrow> nat option" where
  "complete_loop flag t retries =
     (if \<not> flag t \<and> retries < max_retries
      then complete_loop flag (Suc t) retries
      else Some t)"

definition complete :: "(nat \<Rightarrow> bool) \<Rightarrow> nat option" where
  "complete flag = complete_loop flag 0 0"

section \<open>Page fetcher (fetcher.py, \<^verbatim>\<open>Fetcher.fetch_page\<close>)\<close>

text \<open>
  What one pass through the \<^verbatim>\<open>try\<close> block can meet: \<^verbatim>\<open>requests.get\<close> followed by
  \<^verbatim>\<open>raise_for_status\<close> either delivers the response text or raises.
  \<open>RequestException\<close> stands for every other member of the
  \<^verbatim>\<open>requests.exceptions.RequestException\<close> hierarchy (timeout, connection error, the
  \<^verbatim>\<open>HTTPError\<close> of a non-2xx status); \<open>OtherException\<close> is an exception outside that
  hierarchy, which no \<^verbatim>\<open>except\<close> clause of the function catches.
\<close>

datatype attempt =
  Responded string
| TooManyRedirects
| RequestException
| OtherException

text \<open>
  The ways control leaves the \<^verbatim>\<open>try\<close> statement: a \<^verbatim>\<open>return\<close>, an exception that
  propagates, or falling through to the statements after it
  (\<^verbatim>\<open>retries += 1; time.sleep(2 ** retries)\<close>).
\<close>

datatype 'a flow = Return 'a | Fallthrough | Propagate

fun try_request :: "attempt \<Rightarrow> string option flow" where
  "try_request (Responded text) = Return (Some text)"
| "try_request TooManyRedirects = Return None"
| "try_request RequestException = Return None"
| "try_request OtherException = Propagate"

text \<open>
  The result of a call of \<^verbatim>\<open>fetch_page\<close>: what it returned (\<open>None\<close> is Python's
  \<^verbatim>\<open>None\<close>) or that it raised, together with the number of requests sent and the
  delays slept, in seconds, in order.
\<close>

datatype fetch_outcome = Returned "string option" | Raised

record fetch_run =
  outcome :: fetch_outcome
  attempts :: nat
  sleeps :: "int list"

text \<open>
  The \<^verbatim>\<open>while retries < MAX_RETRIES\<close> loop. \<open>net k\<close> is what the \<open>k\<close>-th request of this
  call meets (counted from 0).
\<close>

function fetch_loop :: "config \<Rightarrow> (nat \<Rightarrow> attempt) \<Rightarrow> int \<Rightarrow> nat \<Rightarrow> int list \<Rightarrow> fetch_run" where
  "fetch_loop cfg net retries k slept =
     (if retries < MAX_RETRIES cfg then
        (case try_request (net k) of
           Return v \<Rightarrow> \<lparr>outcome = Returned v, attempts = Suc k, sleeps = slept\<rparr>
         | Propagate \<Rightarrow> \<lparr>outcome = Raised, attempts = Suc k, sleeps = slept\<rparr>
         | Fallthrough \<Rightarrow>
             fetch_loop cfg net (retries + 1) (Suc k) (slept @ [2 ^ nat (retries + 1)]))
      else \<lparr>outcome = Returned None, attempts = k, sleeps = slept\<rparr>)"
  by pat_completeness auto
termination
  by (relation "measure (\<lambda>(cfg, net, retries, k, slept). nat (MAX_RETRIES cfg - retries))") auto

declare fetch_loop.simps [simp del]

definition fetch_page :: "config \<Rightarrow> (nat \<Rightarrow> attempt) \<Rightarrow> fetch_run" where
  "fetch_page cfg net = fetch_loop cfg net 0 0 []"

text \<open>
  Python truthiness of what \<^verbatim>\<open>fetch_page\<close> returned: \<^verbatim>\<open>not html\<close> holds for
  \<^verbatim>\<open>None\<close> and for the empty string.
\<close>

fun falsy :: "string option \<Rightarrow> bool" where
  "falsy None = True"
| "falsy (Some html) = (html = [])"

section \<open>Decimal rendering of integers (f-strings)\<close>

definition digit_char :: "nat \<Rightarrow> char" where
  "digit_char d = ''0123456789'' ! d"

fun str_nat :: "nat \<Rightarrow> string" where
  "str_nat n = (if n < 10 then [digit_char n] else str_nat (n div 10) @ [digit_char (n mod 10)])"

declare str_nat.simps [simp del]

definition str_int :: "int \<Rightarrow> string" where
  "str_int i = (if i < 0 then CHR ''-'' # str_nat (nat (- i)) else str_nat (nat i))"

text \<open>Reading a decimal numeral back; used only to show that the rendering is injective.\<close>

definition nat_of_digits :: "string \<Rightarrow> nat" where
  "nat_of_digits s = foldl (\<lambda>a c. 10 * a + (of_char c - 48)) 0 s"

section \<open>Link discovery (fetcher.py)\<close>

text \<open>
  The library calls of the discovery code are parameters of the model: the regular
  expression engine, the HTML parser, \<^verbatim>\<open>int\<close> and \<^verbatim>\<open>urllib.parse.quote_plus\<close>.
  \<^item> \<open>re_findall html\<close>: \<^verbatim>\<open>re.findall(r'"meta":\s*{\s*"numPages":\s*(\d+)', html)\<close>, the
    captured group of every match;
  \<^item> \<open>re_search s\<close>: \<^verbatim>\<open>re.search\<close> with the same pattern, the captured group of the first
    match, \<open>None\<close> when there is none;
  \<^item> \<open>py_int s\<close>: \<^verbatim>\<open>int(s)\<close>, \<open>None\<close> when it raises;
  \<^item> \<open>script_strings html\<close>: the \<^verbatim>\<open>.string\<close> of every tag of
    \<^verbatim>\<open>BeautifulSoup(html, "html.parser").find_all("script")\<close> (\<open>None\<close> where the tag has no
    single string), or \<open>None\<close> as a whole when the parser raises;
  \<^item> \<open>extract_job_links html\<close>: \<^verbatim>\<open>Fetcher.extract_job_links\<close>, the detail addresses of
    a listing page;
  \<^item> \<open>get_text html label\<close>: \<^verbatim>\<open>Scraper.get_text\<close> on the parsed page.
\<close>

record parser =
  re_findall :: "string \<Rightarrow> string list"
  re_search :: "string \<Rightarrow> string option"
  py_int :: "string \<Rightarrow> int option"
  script_strings :: "string \<Rightarrow> string option list option"
  extract_job_links :: "string \<Rightarrow> string list"
  quote_plus :: "string \<Rightarrow> string"
  get_text :: "string \<Rightarrow> string \<Rightarrow> string"

text \<open>\<^verbatim>\<open>needle in s\<close> on Python strings.\<close>

fun contains :: "string \<Rightarrow> string \<Rightarrow> bool" where
  "contains needle [] = (needle = [])"
| "contains needle (c # cs) = (take (length needle) (c # cs) = needle \<or> contains needle cs)"

datatype exn = Exception

text \<open>
  One round of the fallback loop of \<^verbatim>\<open>get_total_pages\<close>: the test
  \<^verbatim>\<open>script.string and '"meta":' in script.string\<close> followed by \<^verbatim>\<open>re.search\<close>.
\<close>

definition script_match :: "parser \<Rightarrow> string option \<Rightarrow> string option" where
  "script_match P s =
     (case s of
        None \<Rightarrow> None
      | Some str \<Rightarrow>
          if str \<noteq> [] \<and> contains ''\"meta\":'' str then re_search P str else None)"

definition to_int :: "parser \<Rightarrow> string \<Rightarrow> exn + int" where
  "to_int P g = (case py_int P g of None \<Rightarrow> Inl Exception | Some n \<Rightarrow> Inr n)"

fun scan_scripts :: "parser \<Rightarrow> string option list \<Rightarrow> exn + int" where
  "scan_scripts P [] = Inr 1"
| "scan_scripts P (s # ss) =
     (case script_match P s of
        Some g \<Rightarrow> to_int P g
      | None \<Rightarrow> scan_scripts P ss)"

text \<open>The body of the \<^verbatim>\<open>try\<close> block of \<^verbatim>\<open>get_total_pages\<close>.\<close>

definition parse_total_pages :: "parser \<Rightarrow> string \<Rightarrow> exn + int" where
  "parse_total_pages P html =
     (case re_findall P html of
        m # ms \<Rightarrow> to_int P m
      | [] \<Rightarrow>
          (case script_strings P html of
             None \<Rightarrow> Inl Exception
           | Some ss \<Rightarrow> scan_scripts P ss))"

definition first_page_url :: "string \<Rightarrow> string" where
  "first_page_url enc = ''https://www.jobs.ch/en/vacancies/?page=1&term='' @ enc"

definition page_url :: "int \<Rightarrow> string \<Rightarrow> string" where
  "page_url current_page enc =
     ''https://www.jobs.ch/en/vacancies/?page='' @ str_int current_page @ ''&term='' @ enc"

text \<open>
  The state of a \<^verbatim>\<open>Fetcher\<close>. A queue is the list of the items put on it, oldest first
  (nothing is taken off the two queues while discovery runs). \<open>requests\<close> is a trace: the
  addresses passed to \<^verbatim>\<open>fetch_page\<close> so far, oldest first.
\<close>

record fetcher =
  job_queue :: "string list"
  download_queue :: "string list"
  seen_urls :: "string set"
  fetched_count :: int
  progress :: tracker
  requests :: "string list"

definition Fetcher :: "string list \<Rightarrow> tracker \<Rightarrow> string list \<Rightarrow> fetcher" where
  "Fetcher jq p dq =
     \<lparr>job_queue = jq, download_queue = dq, seen_urls = {}, fetched_count = 0,
      progress = p, requests = []\<rparr>"

text \<open>
  The network as the discovery code sees it: \<open>web k url\<close> is what the \<open>k\<close>-th call of
  \<^verbatim>\<open>fetch_page\<close> returns when it is asked for \<open>url\<close>.
\<close>

type_synonym web = "nat \<Rightarrow> string \<Rightarrow> string option"

definition do_fetch :: "web \<Rightarrow> fetcher \<Rightarrow> string \<Rightarrow> string option \<times> fetcher" where
  "do_fetch web f url = (web (length (requests f)) url, f\<lparr>requests := requests f @ [url]\<rparr>)"

text \<open>
  \<^verbatim>\<open>get_total_pages\<close>: it fetches the first results page of the term and returns the
  page count, with the fetcher whose trace has the request.
\<close>

definition get_total_pages :: "parser \<Rightarrow> web \<Rightarrow> fetcher \<Rightarrow> string \<Rightarrow> int \<times> fetcher" where
  "get_total_pages P web f encoded_job_title =
     (let (html, f1) = do_fetch web f (first_page_url encoded_job_title) in
      case html of
        None \<Rightarrow> (0, f1)
      | Some text \<Rightarrow>
          if text = [] then (0, f1)
          else (case parse_total_pages P text of Inl e \<Rightarrow> (0, f1) | Inr n \<Rightarrow> (n, f1)))"

text \<open>
  The statements of the body of \<^verbatim>\<open>for link in new_links\<close>, one function each:
  \<^verbatim>\<open>self.job_queue.put(link)\<close>, the test \<^verbatim>\<open>self.fetched_count < HTML_FILE_LIMIT\<close>,
  \<^verbatim>\<open>self.download_queue.put(link)\<close>, the store of \<^verbatim>\<open>self.fetched_count += 1\<close> and
  \<^verbatim>\<open>self.progress.update_fetch()\<close>. Only the limit check at the head of the loop runs
  under \<^verbatim>\<open>count_lock\<close>; these statements run under no lock of the fetcher.
\<close>

definition put_job :: "fetcher \<Rightarrow> string \<Rightarrow> fetcher" where
  "put_job f link = f\<lparr>job_queue := job_queue f @ [link]\<rparr>"

definition below_limit :: "config \<Rightarrow> fetcher \<Rightarrow> bool" where
  "below_limit cfg f \<longleftrightarrow> fetched_count f < HTML_FILE_LIMIT cfg"

definition put_download :: "fetcher \<Rightarrow> string \<Rightarrow> fetcher" where
  "put_download f link = f\<lparr>download_queue := download_queue f @ [link]\<rparr>"

definition store_count :: "fetcher \<Rightarrow> int \<Rightarrow> fetcher" where
  "store_count f v = f\<lparr>fetched_count := v\<rparr>"

definition notify_fetch :: "fetcher \<Rightarrow> fetcher" where
  "notify_fetch f = f\<lparr>progress := update_fetch (progress f)\<rparr>"

text \<open>
  The body of the loop for one address after its limit check, executed by one thread with
  no statement of another thread in between. This, and \<open>push_links\<close>, \<open>fetch_term_pages\<close>,
  \<open>fetch_term\<close>, \<open>fetch_terms\<close> and \<open>fetch_pages\<close> built on it, is \<^verbatim>\<open>_fetch_pages\<close> run by
  one thread at a time; the interleaving of several threads is \<open>run_schedule\<close> below.
\<close>

definition push_link :: "config \<Rightarrow> fetcher \<Rightarrow> string \<Rightarrow> fetcher" where
  "push_link cfg f link =
     (let f1 = put_job f link;
          f2 = (if below_limit cfg f1 then put_download f1 link else f1);
          f3 = store_count f2 (fetched_count f2 + 1)
      in notify_fetch f3)"

text \<open>The loop over \<^verbatim>\<open>new_links\<close>; the flag says that \<^verbatim>\<open>return\<close> was executed.\<close>

fun push_links :: "config \<Rightarrow> fetcher \<Rightarrow> string list \<Rightarrow> fetcher \<times> bool" where
  "push_links cfg f [] = (f, False)"
| "push_links cfg f (link # links) =
     (if fetched_count f \<ge> NUM_JOBS cfg then (f, True)
      else push_links cfg (push_link cfg f link) links)"

text \<open>
  The loop \<^verbatim>\<open>for current_page in range(1, total_pages + 1)\<close> over the pages that are
  left; the flag says that \<^verbatim>\<open>return\<close> was executed, \<open>False\<close> that the loop ended or was
  left by \<^verbatim>\<open>break\<close>.
\<close>

fun fetch_term_pages ::
  "config \<Rightarrow> parser \<Rightarrow> web \<Rightarrow> string \<Rightarrow> fetcher \<Rightarrow> int list \<Rightarrow> fetcher \<times> bool" where
  "fetch_term_pages cfg P web enc f [] = (f, False)"
| "fetch_term_pages cfg P web enc f (current_page # pages) =
     (if fetched_count f \<ge> NUM_JOBS cfg then (f, True)
      else
        let (html_content, f1) = do_fetch web f (page_url current_page enc) in
        case html_content of
          None \<Rightarrow> (f1, False)
        | Some html \<Rightarrow>
            if html = [] then (f1, False)
            else
              let job_links = extract_job_links P html in
              if job_links = [] then (f1, False)
              else
                let new_links = filter (\<lambda>link. link \<notin> seen_urls f1) job_links in
                if new_links \<noteq> [] then
                  let (f2, returned) = push_links cfg f1 new_links in
                  if returned then (f2, True)
                  else fetch_term_pages cfg P web enc
                         (f2\<lparr>seen_urls := seen_urls f2 \<union> set new_links\<rparr>) pages
                else fetch_term_pages cfg P web enc f1 pages)"

text \<open>One round of \<^verbatim>\<open>for job_title in JOB_TITLES\<close>.\<close>

definition fetch_term :: "config \<Rightarrow> parser \<Rightarrow> web \<Rightarrow> fetcher \<Rightarrow> string \<Rightarrow> fetcher \<times> bool" where
  "fetch_term cfg P web f job_title =
     (let encoded_job_title = quote_plus P job_title;
          (total_pages, f1) = get_total_pages P web f encoded_job_title
      in if total_pages = 0 then (f1, False)
         else fetch_term_pages cfg P web encoded_job_title f1 [1..total_pages])"

fun fetch_terms :: "config \<Rightarrow> parser \<Rightarrow> web \<Rightarrow> fetcher \<Rightarrow> string list \<Rightarrow> fetcher" where
  "fetch_terms cfg P web f [] = f"
| "fetch_terms cfg P web f (job_title # titles) =
     (let (f1, returned) = fetch_term cfg P web f job_title in
      if returned then f1 else fetch_terms cfg P web f1 titles)"

text \<open>\<^verbatim>\<open>Fetcher._fetch_pages\<close>; \<open>titles\<close> is \<^verbatim>\<open>JOB_TITLES\<close>.\<close>

definition fetch_pages :: "config \<Rightarrow> parser \<Rightarrow> web \<Rightarrow> string list \<Rightarrow> fetcher \<Rightarrow> fetcher" where
  "fetch_pages cfg P web titles f = fetch_terms cfg P web f titles"

text \<open>
  Several threads in the loop over \<^verbatim>\<open>new_links\<close> on one shared \<^verbatim>\<open>Fetcher\<close>. A thread is
  the addresses its loop has not started yet, the statement it executes next, and whether
  it has executed \<^verbatim>\<open>return\<close>. A step of a thread is one statement; the increment
  \<^verbatim>\<open>self.fetched_count += 1\<close> is a load followed by a store. Between two steps of a
  thread any other thread may take steps.
\<close>

datatype loop_pc =
  AtCheck
| AtPutJob string
| AtTest string
| AtPutDownload string
| AtLoad
| AtStore int
| AtNotify

record link_thread =
  todo :: "string list"
  pc :: loop_pc
  returned :: bool





section \<open>Detail scraper (scraper.py)\<close>

text \<open>
  The dictionary \<^verbatim>\<open>job_details\<close> built by \<^verbatim>\<open>scrape_job\<close>; it always has these nine keys.
  (The key \<^verbatim>\<open>id\<close> is the field \<open>id'\<close>.)
\<close>

record job_details =
  id' :: int
  url :: string
  title :: string
  publication_date :: string
  workload :: string
  contract_type :: string
  salary :: string
  languages :: string
  place_of_work :: string

text \<open>\<^verbatim>\<open>x or "N/A"\<close> on strings.\<close>

definition or_na :: "string \<Rightarrow> string" where
  "or_na s = (if s = [] then ''N/A'' else s)"

text \<open>
  The state of a \<^verbatim>\<open>Scraper\<close> (its tracker is the field \<open>progress_sc\<close>). \<open>fetches\<close> is a
  trace: the addresses this scraper passed to \<^verbatim>\<open>fetch_page\<close>, oldest first.
\<close>

record scraper =
  seen_jobs :: "string set"
  job_id :: int
  scraped_jobs :: "job_details list"
  progress_sc :: tracker
  fetches :: "string list"

definition Scraper :: "tracker \<Rightarrow> scraper" where
  "Scraper p =
     \<lparr>seen_jobs = {}, job_id = 1, scraped_jobs = [], progress_sc = p, fetches = []\<rparr>"

text \<open>
  \<^verbatim>\<open>Scraper.scrape_job\<close>: the returned value (\<open>None\<close> is Python's \<^verbatim>\<open>None\<close>) and the new
  state. \<open>web k a\<close> is what the \<open>k\<close>-th call of \<^verbatim>\<open>fetch_page\<close> by this scraper returns
  for the address \<open>a\<close>.
\<close>

definition scrape_job ::
  "parser \<Rightarrow> web \<Rightarrow> scraper \<Rightarrow> string \<Rightarrow> job_details option \<times> scraper" where
  "scrape_job P web s job_url =
     (if job_url \<in> seen_jobs s then (None, s)
      else
        let s1 = s\<lparr>seen_jobs := insert job_url (seen_jobs s)\<rparr>;
            job_html = web (length (fetches s1)) job_url;
            s2 = s1\<lparr>fetches := fetches s1 @ [job_url]\<rparr>
        in if falsy job_html then (None, s2)
           else
             let soup = the job_html;
                 details =
                   \<lparr>id' = job_id s2, url = job_url,
                    title = get_text P soup ''title'',
                    publication_date = or_na (get_text P soup ''Publication date:''),
                    workload = or_na (get_text P soup ''Workload:''),
                    contract_type = or_na (get_text P soup ''Contract type:''),
                    salary = or_na (get_text P soup ''Salary:''),
                    languages = or_na (get_text P soup ''Language:''),
                    place_of_work = or_na (get_text P soup ''Place of work:'')\<rparr>;
                 s3 = s2\<lparr>job_id := job_id s2 + 1\<rparr>
             in (Some details,
                 s3\<lparr>progress_sc := update_scrape (progress_sc s3),
                    scraped_jobs := scraped_jobs s3 @ [details]\<rparr>))"

text \<open>
  \<^verbatim>\<open>Scraper.worker\<close> run by one thread over the addresses it takes off the scrape queue,
  in order, until the queue stays empty.
\<close>

fun worker :: "parser \<Rightarrow> web \<Rightarrow> scraper \<Rightarrow> string list \<Rightarrow> scraper" where
  "worker P web s [] = s"
| "worker P web s (job_url # queue) = worker P web (snd (scrape_job P web s job_url)) queue"

section \<open>Save queue and batch persister (data\_saver.py)\<close>

text \<open>
  The three sinks as \<^verbatim>\<open>DataSaver\<close> finds and leaves them on disk.
  \<^item> The CSV file is its lines: the header line and one row for each record written.
  \<^item> The JSON file is missing, holds something that is not JSON (\<open>Corrupt\<close>, for which
    \<^verbatim>\<open>json.load\<close> raises \<^verbatim>\<open>JSONDecodeError\<close>), holds a JSON value that is not a list
    (\<open>NotAList\<close>), or holds a list of records.
  \<^item> The DuckDB table \<^verbatim>\<open>job_descriptions\<close> is its rows, of the eight columns title, url,
    publication\_date, workload, contract\_type, salary, languages, place\_of\_work (no row
    when the table does not exist yet).
\<close>

datatype csv_line = Header | Row job_details

datatype json_file = Missing | Corrupt | NotAList | Records "job_details list"

type_synonym db_row = "string \<times> string \<times> string \<times> string \<times> string \<times> string \<times> string \<times> string"

definition db_row_of :: "job_details \<Rightarrow> db_row" where
  "db_row_of job =
     (title job, url job, publication_date job, workload job, contract_type job, salary job,
      languages job, place_of_work job)"

text \<open>
  The state of a \<^verbatim>\<open>DataSaver\<close>: the save queue \<^verbatim>\<open>job_queue\<close> (field \<open>job_queue_ds\<close>, the
  records put on it and not yet taken off, oldest first), the identity-key set
  \<^verbatim>\<open>seen_jobs\<close> (field \<open>seen_jobs_ds\<close>), the warnings logged by \<^verbatim>\<open>save_job\<close>, the local
  variables \<^verbatim>\<open>batch\<close> and \<^verbatim>\<open>last_save_time\<close> of the thread that runs \<^verbatim>\<open>process_queue\<close>,
  whether that thread is still in its loop, and the three sinks.
\<close>

record data_saver =
  job_queue_ds :: "job_details list"
  seen_jobs_ds :: "string set"
  warnings :: "string list"
  batch :: "job_details list"
  last_save_time :: real
  running :: bool
  csv_file :: "csv_line list"
  json_doc :: json_file
  duckdb_table :: "db_row list"

text \<open>
  \<^verbatim>\<open>DataSaver.__init__\<close>, with the clock reading at which \<^verbatim>\<open>process_queue\<close> starts and
  the sinks found on disk.
\<close>

definition DataSaver :: "real \<Rightarrow> csv_line list \<Rightarrow> json_file \<Rightarrow> db_row list \<Rightarrow> data_saver" where
  "DataSaver start csv0 json0 db0 =
     \<lparr>job_queue_ds = [], seen_jobs_ds = {}, warnings = [], batch = [],
      last_save_time = start, running = True,
      csv_file = csv0, json_doc = json0, duckdb_table = db0\<rparr>"

definition save_job :: "data_saver \<Rightarrow> job_details \<Rightarrow> data_saver" where
  "save_job ds job_data =
     (let job_url = url job_data in
      if job_url \<in> seen_jobs_ds ds
      then ds\<lparr>warnings := warnings ds @ [''Duplicate job skipped: '' @ job_url]\<rparr>
      else ds\<lparr>seen_jobs_ds := insert job_url (seen_jobs_ds ds),
              job_queue_ds := job_queue_ds ds @ [job_data]\<rparr>)"

text \<open>
  What a write to a sink can meet. For the CSV file and the table: no exception, or an
  exception after the given number of lines or rows were written. For the JSON file: no
  exception, an exception before the file is opened for writing (the file is as before),
  or an exception in \<^verbatim>\<open>json.dump\<close> after the file was opened for writing (the file is
  left truncated). Each of the three methods catches the exception and logs it.
\<close>

datatype write_outcome = WriteOk | WriteError nat

datatype json_outcome = JsonOk | JsonErrorBeforeWrite | JsonErrorDuringWrite

record sink_io =
  csv_io :: write_outcome
  json_io :: json_outcome
  db_io :: write_outcome

fun rows_written :: "write_outcome \<Rightarrow> 'a list \<Rightarrow> 'a list" where
  "rows_written WriteOk xs = xs"
| "rows_written (WriteError n) xs = take n xs"

definition save_to_csv :: "write_outcome \<Rightarrow> job_details list \<Rightarrow> data_saver \<Rightarrow> data_saver" where
  "save_to_csv io job_list ds =
     (if job_list = [] then ds
      else
        let file_empty = (csv_file ds = []);
            lines = (if file_empty then [Header] else []) @ map Row job_list
        in ds\<lparr>csv_file := csv_file ds @ rows_written io lines\<rparr>)"

definition save_to_json :: "json_outcome \<Rightarrow> job_details list \<Rightarrow> data_saver \<Rightarrow> data_saver" where
  "save_to_json io job_list ds =
     (if job_list = [] then ds
      else if io = JsonErrorBeforeWrite then ds
      else
        (case json_doc ds of
           NotAList \<Rightarrow> ds
         | Records data \<Rightarrow>
             if io = JsonOk then ds\<lparr>json_doc := Records (data @ job_list)\<rparr>
             else ds\<lparr>json_doc := Corrupt\<rparr>
         | _ \<Rightarrow>
             if io = JsonOk then ds\<lparr>json_doc := Records job_list\<rparr>
             else ds\<lparr>json_doc := Corrupt\<rparr>))"

definition save_to_duckdb :: "write_outcome \<Rightarrow> job_details list \<Rightarrow> data_saver \<Rightarrow> data_saver" where
  "save_to_duckdb io job_list ds =
     ds\<lparr>duckdb_table := duckdb_table ds @ rows_written io (map db_row_of job_list)\<rparr>"

definition batch_save_jobs :: "sink_io \<Rightarrow> job_details list \<Rightarrow> data_saver \<Rightarrow> data_saver" where
  "batch_save_jobs io job_list ds =
     (if job_list = [] then ds
      else save_to_duckdb (db_io io) job_list
             (save_to_json (json_io io) job_list
                (save_to_csv (csv_io io) job_list ds)))"

text \<open>
  \<^verbatim>\<open>process_queue\<close>, one round of its \<^verbatim>\<open>while True\<close> loop at a time. In a round
  \<^verbatim>\<open>self.job_queue.get(timeout=10)\<close> either returns the oldest record on the queue
  (\<open>process_queue_get\<close>) or, the queue having stayed empty, raises \<^verbatim>\<open>queue.Empty\<close>
  (\<open>process_queue_empty\<close>). \<open>now\<close> is what \<^verbatim>\<open>time.time()\<close> returns in that round and \<open>io\<close>
  what the writes of that round meet. After the \<^verbatim>\<open>break\<close> the thread has ended and takes
  nothing off the queue any more.
\<close>

definition batch_size :: nat where
  "batch_size = 50"

definition process_queue_get :: "real \<Rightarrow> sink_io \<Rightarrow> data_saver \<Rightarrow> data_saver" where
  "process_queue_get now io ds =
     (if \<not> running ds then ds
      else
        (case job_queue_ds ds of
           [] \<Rightarrow> ds
         | job # rest \<Rightarrow>
             let ds1 = ds\<lparr>job_queue_ds := rest, batch := batch ds @ [job]\<rparr> in
             if length (batch ds1) \<ge> batch_size
             then (batch_save_jobs io (batch ds1) ds1)\<lparr>batch := [], last_save_time := now\<rparr>
             else ds1))"

definition process_queue_empty :: "real \<Rightarrow> sink_io \<Rightarrow> data_saver \<Rightarrow> data_saver" where
  "process_queue_empty now io ds =
     (if \<not> running ds \<or> job_queue_ds ds \<noteq> [] then ds
      else if batch ds \<noteq> [] \<and> now - last_save_time ds \<ge> 10
      then (batch_save_jobs io (batch ds) ds)\<lparr>batch := [], running := False\<rparr>
      else ds)"

text \<open>
  A run of a \<^verbatim>\<open>DataSaver\<close>: the calls of \<^verbatim>\<open>save_job\<close> by the producers and the rounds of
  the consumer thread, in the order in which they take effect (\<^verbatim>\<open>save_job\<close> works under
  \<^verbatim>\<open>self.lock\<close> and the queue is thread-safe, so each is one step).
\<close>

datatype saver_event =
  Submit job_details
| Get real sink_io
| QueueEmpty real sink_io

fun saver_step :: "data_saver \<Rightarrow> saver_event \<Rightarrow> data_saver" where
  "saver_step ds (Submit job_data) = save_job ds job_data"
| "saver_step ds (Get now io) = process_queue_get now io ds"
| "saver_step ds (QueueEmpty now io) = process_queue_empty now io ds"

definition run_saver :: "data_saver \<Rightarrow> saver_event list \<Rightarrow> data_saver" where
  "run_saver ds events = foldl saver_step ds events"



text \<open>The number of entries for the address \<open>a\<close> in a list of records and in each sink.\<close>

definition entries :: "string \<Rightarrow> job_details list \<Rightarrow> nat" where
  "entries a jobs = length (filter (\<lambda>job. url job = a) jobs)"

fun csv_records :: "csv_line list \<Rightarrow> job_details list" where
  "csv_records [] = []"
| "csv_records (Header # ls) = csv_records ls"
| "csv_records (Row job # ls) = job # csv_records ls"

definition csv_entries :: "string \<Rightarrow> csv_line list \<Rightarrow> nat" where
  "csv_entries a ls = entries a (csv_records ls)"

fun json_records :: "json_file \<Rightarrow> job_details list" where
  "json_records (Records data) = data"
| "json_records other = []"

definition json_entries :: "string \<Rightarrow> json_file \<Rightarrow> nat" where
  "json_entries a doc = entries a (json_records doc)"

definition db_entries :: "string \<Rightarrow> db_row list \<Rightarrow> nat" where
  "db_entries a rows = length (filter (\<lambda>r. fst (snd r) = a) rows)"

text \<open>
  What every step of a run keeps true, for sinks that held \<open>csv0\<close>, \<open>json0\<close> and \<open>db0\<close> at the
  start: the addresses of the records on the queue and in the batch are in the identity-key
  set, and for every address the records on the queue and in the batch and the entries
  added to a sink are together at most one, and none for an address not in the set.
\<close>

definition pending :: "string \<Rightarrow> data_saver \<Rightarrow> nat" where
  "pending a ds = entries a (job_queue_ds ds) + entries a (batch ds)"

definition seen_count :: "string \<Rightarrow> data_saver \<Rightarrow> nat" where
  "seen_count a ds = (if a \<in> seen_jobs_ds ds then 1 else 0)"

definition saver_inv :: "csv_line list \<Rightarrow> json_file \<Rightarrow> db_row list \<Rightarrow> data_saver \<Rightarrow> bool" where
  "saver_inv csv0 json0 db0 ds \<longleftrightarrow>
     (\<forall>a. pending a ds + csv_entries a (csv_file ds) \<le> csv_entries a csv0 + seen_count a ds
        \<and> pending a ds + json_entries a (json_doc ds) \<le> json_entries a json0 + seen_count a ds
        \<and> pending a ds + db_entries a (duckdb_table ds) \<le> db_entries a db0 + seen_count a ds
        \<and> csv_entries a csv0 \<le> csv_entries a (csv_file ds)
        \<and> db_entries a db0 \<le> db_entries a (duckdb_table ds))"

text \<open>
  The same with equalities, kept true by the steps of a run whose writes all succeed on a
  JSON file that is not a JSON value other than a list.
\<close>

definition saver_exact :: "csv_line list \<Rightarrow> json_file \<Rightarrow> db_row list \<Rightarrow> data_saver \<Rightarrow> bool" where
  "saver_exact csv0 json0 db0 ds \<longleftrightarrow>
     json_doc ds \<noteq> NotAList
     \<and> (\<forall>a. pending a ds + csv_entries a (csv_file ds) = csv_entries a csv0 + seen_count a ds
          \<and> pending a ds + json_entries a (json_doc ds) = json_entries a json0 + seen_count a ds
          \<and> pending a ds + db_entries a (duckdb_table ds) = db_entries a db0 + seen_count a ds)"

section \<open>Raw-page archiver (downloader.py)\<close>

text \<open>
  The state of a \<^verbatim>\<open>Downloader\<close> and of the files it writes: \<open>local_html_folder\<close> maps
  the name of every file under \<^verbatim>\<open>data/html\<close> to its content, \<open>archive\<close> is the content
  of \<^verbatim>\<open>data/job_html_files.zip\<close> (\<open>None\<close> when the file does not exist), an entry per
  archived name. The tracker is the field \<open>progress_dl\<close>.
\<close>

record downloader =
  num_html_saved :: int
  local_html_folder :: "string \<rightharpoonup> string"
  archive :: "(string \<rightharpoonup> string) option"
  progress_dl :: tracker

text \<open>
  \<^verbatim>\<open>Downloader.__init__\<close>, given the files found under \<^verbatim>\<open>data/html\<close> (none when the
  folder has to be created) and the archive found on disk.
\<close>

definition Downloader :: "tracker \<Rightarrow> (string \<rightharpoonup> string) \<Rightarrow> (string \<rightharpoonup> string) option \<Rightarrow> downloader" where
  "Downloader p files old_archive =
     \<lparr>num_html_saved = 0, local_html_folder = files, archive = old_archive,
      progress_dl = p\<rparr>"

definition html_filename :: "int \<Rightarrow> string" where
  "html_filename file_index = ''job_'' @ str_int file_index @ ''.html''"

text \<open>
  The \<^verbatim>\<open>while True\<close> loop of \<^verbatim>\<open>download_jobs\<close> over the addresses it takes off the
  queue, until \<^verbatim>\<open>queue.Empty\<close> or the \<^verbatim>\<open>break\<close> at the limit. \<open>k\<close> counts the calls of
  \<^verbatim>\<open>fetch_page\<close>. The flag says that every address taken off the queue was marked
  \<^verbatim>\<open>task_done\<close>: the \<^verbatim>\<open>break\<close> at the limit leaves the address just taken unmarked.
\<close>

fun download_loop ::
  "config \<Rightarrow> web \<Rightarrow> downloader \<Rightarrow> nat \<Rightarrow> string list \<Rightarrow> downloader \<times> bool" where
  "download_loop cfg web d k [] = (d, True)"
| "download_loop cfg web d k (job_url # queue) =
     (if take 5 job_url \<noteq> ''https'' then download_loop cfg web d k queue
      else
        let job_html = web k job_url in
        if falsy job_html then download_loop cfg web d (Suc k) queue
        else if num_html_saved d \<ge> HTML_FILE_LIMIT cfg then (d, False)
        else
          let file_index = num_html_saved d + 1 in
          download_loop cfg web
            (d\<lparr>num_html_saved := file_index,
               local_html_folder :=
                 (local_html_folder d)(html_filename file_index \<mapsto> the job_html),
               progress_dl := update_download (progress_dl d)\<rparr>)
            (Suc k) queue)"

text \<open>
  \<^verbatim>\<open>download_jobs\<close>. After the loop it calls \<^verbatim>\<open>download_queue.join()\<close>, which returns
  only when every address taken off the queue has been marked; \<open>None\<close> is ``blocks in
  \<^verbatim>\<open>join\<close> for ever''.
\<close>

definition download_jobs :: "config \<Rightarrow> web \<Rightarrow> downloader \<Rightarrow> string list \<Rightarrow> downloader option" where
  "download_jobs cfg web d download_queue0 =
     (if download_queue0 = [] then Some d
      else
        let (d1, all_marked) = download_loop cfg web d 0 download_queue0 in
        if all_marked
        then Some (d1\<lparr>progress_dl := (progress_dl d1)\<lparr>downloading_done := True\<rparr>\<rparr>)
        else None)"

text \<open>
  What writing the archive can meet: every file is written, or an exception after the
  files named in the list were written (caught and logged by \<^verbatim>\<open>zip_html_files\<close>).
\<close>

datatype zip_io = ZipOk | ZipError "string list"

definition zip_html_files :: "config \<Rightarrow> zip_io \<Rightarrow> downloader \<Rightarrow> downloader" where
  "zip_html_files cfg io d =
     (if num_html_saved d < HTML_FILE_LIMIT cfg then d
      else
        (case io of
           ZipOk \<Rightarrow> d\<lparr>archive := Some (local_html_folder d)\<rparr>
         | ZipError written \<Rightarrow> d\<lparr>archive := Some (local_html_folder d |` set written)\<rparr>))"

text \<open>
  What the download loop keeps true of a downloader that started on the files \<open>files\<close>:
  the counter is 0 or at most the cap, and the folder holds the files it started with and
  one file \<^verbatim>\<open>job_i.html\<close> for every index \<open>i\<close> from 1 to the counter.
\<close>

definition download_inv :: "config \<Rightarrow> (string \<rightharpoonup> string) \<Rightarrow> downloader \<Rightarrow> bool" where
  "download_inv cfg files d \<longleftrightarrow>
     0 \<le> num_html_saved d \<and>
     (num_html_saved d = 0 \<or> num_html_saved d \<le> HTML_FILE_LIMIT cfg) \<and>
     dom (local_html_folder d) = dom files \<union> html_filename ` {1..num_html_saved d}"

section \<open>Example inputs\<close>

text \<open>
  Small concrete inputs on which the theorems below are evaluated: a configuration with
  a target of 5 jobs and an archive cap of 2, and stand-ins for the library calls.
  \<open>quiet_parser\<close> finds no page count anywhere; \<open>raising_parser\<close> is the same with an HTML
  parser that raises; \<open>listing_parser\<close> reports two pages for every term and three detail
  addresses on the first page of the terms \<^verbatim>\<open>t1\<close> and \<^verbatim>\<open>t2\<close>.
\<close>

definition small_config :: config where
  "small_config = \<lparr>NUM_JOBS = 5, HTML_FILE_LIMIT = 2, MAX_RETRIES = 3\<rparr>"

definition quiet_parser :: parser where
  "quiet_parser =
     \<lparr>re_findall = (\<lambda>h. []), re_search = (\<lambda>s. None), py_int = (\<lambda>s. None),
      script_strings = (\<lambda>h. Some [None, Some ''var a = {\"meta\": {}};'', Some []]),
      extract_job_links = (\<lambda>h. []), quote_plus = (\<lambda>s. s), get_text = (\<lambda>h l. [])\<rparr>"

definition raising_parser :: parser where
  "raising_parser = quiet_parser\<lparr>script_strings := (\<lambda>h. None)\<rparr>"

definition listing_parser :: parser where
  "listing_parser =
     \<lparr>re_findall = (\<lambda>h. [''2'']), re_search = (\<lambda>s. None), py_int = (\<lambda>s. Some 2),
      script_strings = (\<lambda>h. Some []),
      extract_job_links =
        (\<lambda>h. if h = page_url 1 ''t1'' then [''a1'', ''a2'', ''a3'']
             else if h = page_url 1 ''t2'' then [''b1'', ''b2'', ''b3''] else []),
      quote_plus = (\<lambda>s. s), get_text = (\<lambda>h l. [])\<rparr>"

text \<open>A network on which every fetch fails, and one that answers every address with itself.\<close>

definition web_down :: web where
  "web_down k a = None"

definition web_echo :: web where
  "web_echo k a = Some a"

definition job_a :: job_details where
  "job_a =
     \<lparr>id' = 1, url = ''https://www.jobs.ch/en/vacancies/detail/a'', title = ''Koch'',
      publication_date = ''N/A'', workload = ''100%'', contract_type = ''N/A'',
      salary = ''N/A'', languages = ''N/A'', place_of_work = ''Bern''\<rparr>"


text \<open>Writes that all succeed.\<close>

definition io_ok :: sink_io where
  "io_ok = \<lparr>csv_io = WriteOk, json_io = JsonOk, db_io = WriteOk\<rparr>"



section \<open>Properties of the progress tracker\<close>

lemma update_fetch_inv: "tracker_inv p \<Longrightarrow> tracker_inv (update_fetch p)"
  by (auto simp: tracker_inv_def update_fetch_def Let_def)

lemma update_scrape_inv: "tracker_inv p \<Longrightarrow> tracker_inv (update_scrape p)"
  by (auto simp: tracker_inv_def update_scrape_def Let_def)

lemma update_download_inv: "tracker_inv p \<Longrightarrow> tracker_inv (update_download p)"
  by (auto simp: tracker_inv_def update_download_def)

lemma apply_call_inv: "tracker_inv p \<Longrightarrow> tracker_inv (apply_call p c)"
  by (cases c) (simp_all add: update_fetch_inv update_scrape_inv update_download_inv)

lemma run_calls_inv: "tracker_inv p \<Longrightarrow> tracker_inv (run_calls p cs)"
  unfolding run_calls_def
  by (induction cs arbitrary: p) (simp_all add: apply_call_inv)

lemma ProgressTracker_inv:
  "0 \<le> n \<Longrightarrow> 0 \<le> m \<Longrightarrow> tracker_inv (ProgressTracker n m)"
  by (simp add: tracker_inv_def ProgressTracker_def)

lemma apply_call_ceilings:
  "total_jobs (apply_call p c) = total_jobs p \<and>
   html_file_limit (apply_call p c) = html_file_limit p"
  by (cases c) (simp_all add: update_fetch_def update_scrape_def update_download_def Let_def)

lemma run_calls_ceilings:
  "total_jobs (run_calls p cs) = total_jobs p \<and>
   html_file_limit (run_calls p cs) = html_file_limit p"
  unfolding run_calls_def
proof (induction cs arbitrary: p)
  case Nil
  show ?case by simp
next
  case (Cons c cs)
  from Cons.IH [of "apply_call p c"] apply_call_ceilings [of p c]
  show ?case by simp
qed

text \<open>
  Claim C2. Take a tracker made by \<^verbatim>\<open>ProgressTracker(n, m)\<close> with ceilings \<open>n, m \<ge> 0\<close> and
  any sequence \<open>cs\<close> of calls of \<^verbatim>\<open>update_fetch\<close>, \<^verbatim>\<open>update_scrape\<close> and
  \<^verbatim>\<open>update_download\<close>. After each call, that is after every prefix \<open>take i cs\<close> of the
  sequence, \<open>0 \<le> scraped \<le> fetched \<le> total_jobs\<close> and \<open>0 \<le> downloaded \<le> html_file_limit\<close>,
  the two ceilings being still \<open>n\<close> and \<open>m\<close>.
\<close>

theorem tracker_counters_bounded:
  assumes "0 \<le> n" and "0 \<le> m"
  shows "let p = run_calls (ProgressTracker n m) (take i cs) in
           0 \<le> scraped p \<and> scraped p \<le> fetched p \<and> fetched p \<le> total_jobs p \<and>
           0 \<le> downloaded p \<and> downloaded p \<le> html_file_limit p \<and>
           total_jobs p = n \<and> html_file_limit p = m"
proof -
  have "tracker_inv (run_calls (ProgressTracker n m) (take i cs))"
    using assms by (intro run_calls_inv ProgressTracker_inv)
  moreover have "total_jobs (run_calls (ProgressTracker n m) (take i cs)) = n"
    and "html_file_limit (run_calls (ProgressTracker n m) (take i cs)) = m"
    by (simp_all add: run_calls_ceilings ProgressTracker_def)
  ultimately show ?thesis by (simp add: tracker_inv_def Let_def)
qed

theorem tracker_counters_bounded_witness:
  "(0::int) \<le> 2 \<and> (0::int) \<le> 1 \<and>
   (let p = run_calls (ProgressTracker 2 1)
              (take 7 [UpdateScrape, UpdateFetch, UpdateFetch, UpdateFetch, UpdateScrape,
                       UpdateDownload, UpdateDownload]) in
      0 \<le> scraped p \<and> scraped p \<le> fetched p \<and> fetched p \<le> total_jobs p \<and>
      0 \<le> downloaded p \<and> downloaded p \<le> html_file_limit p \<and>
      total_jobs p = 2 \<and> html_file_limit p = 1)"
  using tracker_counters_bounded
    [of 2 1 7 "[UpdateScrape, UpdateFetch, UpdateFetch, UpdateFetch, UpdateScrape,
                UpdateDownload, UpdateDownload]"]
  by simp

text \<open>
  Claim C3. In every tracker state in which \<^verbatim>\<open>fetching_done\<close> is false, a call of
  \<^verbatim>\<open>update_scrape\<close> returns the state unchanged: \<^verbatim>\<open>scraped\<close> and every other field keep
  their values.
\<close>

theorem update_scrape_noop_before_fetching_done:
  "\<not> fetching_done p \<Longrightarrow> update_scrape p = p"
  by (simp add: update_scrape_def)

theorem update_scrape_noop_before_fetching_done_witness:
  "\<not> fetching_done (update_fetch (ProgressTracker 5 2)) \<and>
   fetched (update_fetch (ProgressTracker 5 2)) = 1 \<and>
   update_scrape (update_fetch (ProgressTracker 5 2)) = update_fetch (ProgressTracker 5 2)"
  using update_scrape_noop_before_fetching_done [of "update_fetch (ProgressTracker 5 2)"]
  by (simp add: update_fetch_def ProgressTracker_def)

lemma complete_loop_returns:
  assumes "complete_loop flag t retries = Some y"
  shows "flag y \<or> \<not> retries < max_retries"
  by (rule complete_loop.raw_induct
        [where P = "\<lambda>flag t retries y. flag y \<or> \<not> retries < max_retries", OF _ assms])
     (auto split: if_splits)

lemma complete_loop_diverges:
  "(\<forall>t. \<not> flag t) \<Longrightarrow> retries < max_retries \<Longrightarrow> complete_loop flag t retries = None"
  using complete_loop_returns [of flag t retries]
  by (cases "complete_loop flag t retries") auto

lemma complete_loop_waits:
  "flag (t + k) \<Longrightarrow> \<forall>j<k. \<not> flag (t + j) \<Longrightarrow> retries < max_retries \<Longrightarrow>
   complete_loop flag t retries = Some (t + k)"
proof (induction k arbitrary: t)
  case 0
  then show ?case by (simp add: complete_loop.simps)
next
  case (Suc k)
  have "\<not> flag t"
    using Suc.prems(2) by (metis add.right_neutral zero_less_Suc)
  moreover have "complete_loop flag (Suc t) retries = Some (Suc t + k)"
  proof (rule Suc.IH)
    show "flag (Suc t + k)" using Suc.prems(1) by simp
    show "\<forall>j<k. \<not> flag (Suc t + j)"
      using Suc.prems(2) by (metis Suc_less_eq add_Suc_right add_Suc)
    show "retries < max_retries" by (rule Suc.prems(3))
  qed
  ultimately show ?case
    using Suc.prems(3) by (subst complete_loop.simps) simp
qed

text \<open>
  Claim C4. The claim says that the polling loop of \<^verbatim>\<open>ProgressTracker.complete\<close> ends
  after at most \<^verbatim>\<open>max_retries\<close> iterations when \<^verbatim>\<open>downloading_done\<close> never becomes
  true. The loop never increments \<^verbatim>\<open>retries\<close>: when the flag stays false, \<^verbatim>\<open>complete\<close>
  never returns; and when the flag becomes true only at the 25th poll, the loop has run 25
  iterations, more than \<^verbatim>\<open>max_retries = 10\<close>.
\<close>

theorem complete_never_returns:
  "complete (\<lambda>t. False) = None \<and> complete (\<lambda>t. 25 \<le> t) = Some 25"
proof
  show "complete (\<lambda>t. False) = None"
    by (simp add: complete_def complete_loop_diverges max_retries_def)
  show "complete (\<lambda>t. 25 \<le> t) = Some 25"
    using complete_loop_waits [of "\<lambda>t. 25 \<le> t" 0 25 0]
    by (simp add: complete_def max_retries_def)
qed

section \<open>Properties of the page fetcher\<close>

lemma fetch_loop_once:
  "fetch_loop cfg net retries k slept =
     (if retries < MAX_RETRIES cfg then
        (case net k of
           Responded text \<Rightarrow>
             \<lparr>outcome = Returned (Some text), attempts = Suc k, sleeps = slept\<rparr>
         | OtherException \<Rightarrow> \<lparr>outcome = Raised, attempts = Suc k, sleeps = slept\<rparr>
         | _ \<Rightarrow> \<lparr>outcome = Returned None, attempts = Suc k, sleeps = slept\<rparr>)
      else \<lparr>outcome = Returned None, attempts = k, sleeps = slept\<rparr>)"
  by (subst fetch_loop.simps) (cases "net k"; simp)

text \<open>
  Claim C1. The claim says that \<^verbatim>\<open>fetch_page\<close> retries a failed request up to
  \<^verbatim>\<open>MAX_RETRIES\<close> times with exponential backoff. Both \<^verbatim>\<open>except\<close> clauses return
  \<^verbatim>\<open>None\<close> at once, so the statements \<^verbatim>\<open>retries += 1; time.sleep(2 ** retries)\<close> are
  never reached: with the repository's configuration, a first request that fails with a
  timeout makes \<^verbatim>\<open>fetch_page\<close> return \<^verbatim>\<open>None\<close> after one request and no sleep, although a
  second request would have succeeded; and for every configuration and every network
  \<^verbatim>\<open>fetch_page\<close> sends at most one request and never sleeps.
\<close>

theorem fetch_page_never_retries:
  "fetch_page config (\<lambda>k. if k = 0 then RequestException else Responded ''<html>'')
     = \<lparr>outcome = Returned None, attempts = 1, sleeps = []\<rparr>
   \<and> (\<forall>cfg net. attempts (fetch_page cfg net) \<le> 1 \<and> sleeps (fetch_page cfg net) = [])"
  by (auto simp: fetch_page_def fetch_loop_once config_def split: attempt.splits)

section \<open>Properties of the save queue and the batch persister\<close>

lemma entries_simps [simp]:
  "entries a [] = 0"
  "entries a (job # jobs) = (if url job = a then 1 else 0) + entries a jobs"
  "entries a (xs @ ys) = entries a xs + entries a ys"
  by (simp_all add: entries_def)

lemma entries_take: "entries a (take n jobs) \<le> entries a jobs"
proof (induction jobs arbitrary: n)
  case Nil
  show ?case by simp
next
  case (Cons job jobs)
  show ?case using Cons.IH by (cases n) (simp_all add: le_SucI)
qed









lemma batch_save_frame:
  "job_queue_ds (batch_save_jobs io B ds) = job_queue_ds ds"
  "seen_jobs_ds (batch_save_jobs io B ds) = seen_jobs_ds ds"
  "batch (batch_save_jobs io B ds) = batch ds"
  "running (batch_save_jobs io B ds) = running ds"
  "warnings (batch_save_jobs io B ds) = warnings ds"
  by (simp_all add: batch_save_jobs_def save_to_duckdb_def save_to_json_def save_to_csv_def
        Let_def split: json_file.splits)








lemma pending_frame [simp]:
  "pending a (ds\<lparr>last_save_time := t\<rparr>) = pending a ds"
  "pending a (ds\<lparr>running := r\<rparr>) = pending a ds"
  "pending a (ds\<lparr>warnings := w\<rparr>) = pending a ds"
  "seen_count a (ds\<lparr>last_save_time := t\<rparr>) = seen_count a ds"
  "seen_count a (ds\<lparr>running := r\<rparr>) = seen_count a ds"
  "seen_count a (ds\<lparr>warnings := w\<rparr>) = seen_count a ds"
  "seen_count a (ds\<lparr>batch := b\<rparr>) = seen_count a ds"
  "seen_count a (ds\<lparr>job_queue_ds := q\<rparr>) = seen_count a ds"
  "seen_count a (batch_save_jobs io B ds) = seen_count a ds"
  by (simp_all add: pending_def seen_count_def batch_save_frame)




lemma saver_inv_frame [simp]:
  "saver_inv csv0 json0 db0 (ds\<lparr>last_save_time := t\<rparr>) = saver_inv csv0 json0 db0 ds"
  "saver_inv csv0 json0 db0 (ds\<lparr>running := r\<rparr>) = saver_inv csv0 json0 db0 ds"
  "saver_inv csv0 json0 db0 (ds\<lparr>warnings := w\<rparr>) = saver_inv csv0 json0 db0 ds"
  by (simp_all add: saver_inv_def)








lemma saver_exact_frame [simp]:
  "saver_exact csv0 json0 db0 (ds\<lparr>last_save_time := t\<rparr>) = saver_exact csv0 json0 db0 ds"
  "saver_exact csv0 json0 db0 (ds\<lparr>running := r\<rparr>) = saver_exact csv0 json0 db0 ds"
  "saver_exact csv0 json0 db0 (ds\<lparr>warnings := w\<rparr>) = saver_exact csv0 json0 db0 ds"
  by (simp_all add: saver_exact_def)















text \<open>
  A flush whose writes fail: the CSV write raises before any line is written, the JSON
  write raises in \<^verbatim>\<open>json.dump\<close>, the insert succeeds. The three sinks end with different
  contents, and the record is not written again.
\<close>

lemma sink_failure_example:
  "csv_file (run_saver (DataSaver 0 [] Missing [])
      [Submit job_a, Get 1 io_ok,
       QueueEmpty 11 \<lparr>csv_io = WriteError 0, json_io = JsonErrorDuringWrite,
                      db_io = WriteOk\<rparr>]) = []
   \<and> json_doc (run_saver (DataSaver 0 [] Missing [])
      [Submit job_a, Get 1 io_ok,
       QueueEmpty 11 \<lparr>csv_io = WriteError 0, json_io = JsonErrorDuringWrite,
                      db_io = WriteOk\<rparr>]) = Corrupt
   \<and> duckdb_table (run_saver (DataSaver 0 [] Missing [])
      [Submit job_a, Get 1 io_ok,
       QueueEmpty 11 \<lparr>csv_io = WriteError 0, json_io = JsonErrorDuringWrite,
                      db_io = WriteOk\<rparr>]) = [db_row_of job_a]"
  by (simp add: run_saver_def DataSaver_def save_job_def Let_def
        process_queue_get_def process_queue_empty_def batch_save_jobs_def save_to_csv_def
        save_to_json_def save_to_duckdb_def batch_size_def io_ok_def job_a_def)




section \<open>Properties of link discovery\<close>

lemma scan_scripts_nothing:
  "\<forall>s \<in> set ss. script_match P s = None \<Longrightarrow> scan_scripts P ss = Inr 1"
  by (induction ss) simp_all

lemma get_total_pages_trace:
  "snd (get_total_pages P web f enc) = f\<lparr>requests := requests f @ [first_page_url enc]\<rparr>"
  by (simp add: get_total_pages_def do_fetch_def split: option.splits sum.splits)

text \<open>
  Claim C6. Let the fetch of the first results page of a term deliver a page \<open>html\<close> (a
  non-empty text, which is what \<^verbatim>\<open>get_total_pages\<close> takes for a fetched page). When
  \<^verbatim>\<open>re.findall\<close> over the page yields no match, the HTML parser delivers the script tags
  \<open>ss\<close> without raising, and no script tag yields a match in the fallback loop,
  \<^verbatim>\<open>get_total_pages\<close> returns 1.
\<close>

theorem get_total_pages_default:
  assumes "web (length (requests f)) (first_page_url enc) = Some html"
    and "html \<noteq> []"
    and "re_findall P html = []"
    and "script_strings P html = Some ss"
    and "\<forall>s \<in> set ss. script_match P s = None"
  shows "fst (get_total_pages P web f enc) = 1"
  using assms
  by (simp add: get_total_pages_def do_fetch_def parse_total_pages_def scan_scripts_nothing)

theorem get_total_pages_default_witness:
  "web_echo (length (requests (Fetcher [] (ProgressTracker 5 2) []))) (first_page_url ''Koch'')
     = Some ''https://www.jobs.ch/en/vacancies/?page=1&term=Koch''
   \<and> ''https://www.jobs.ch/en/vacancies/?page=1&term=Koch'' \<noteq> []
   \<and> re_findall quiet_parser ''https://www.jobs.ch/en/vacancies/?page=1&term=Koch'' = []
   \<and> script_strings quiet_parser ''https://www.jobs.ch/en/vacancies/?page=1&term=Koch''
       = Some [None, Some ''var a = {\"meta\": {}};'', Some []]
   \<and> script_match quiet_parser None = None
   \<and> script_match quiet_parser (Some ''var a = {\"meta\": {}};'') = None
   \<and> script_match quiet_parser (Some []) = None
   \<and> fst (get_total_pages quiet_parser web_echo (Fetcher [] (ProgressTracker 5 2) []) ''Koch'')
       = 1"
  using get_total_pages_default
    [of web_echo "Fetcher [] (ProgressTracker 5 2) []" "''Koch''"
        "''https://www.jobs.ch/en/vacancies/?page=1&term=Koch''" quiet_parser
        "[None, Some ''var a = {\"meta\": {}};'', Some []]"]
  by (simp add: quiet_parser_def script_match_def web_echo_def first_page_url_def)

lemma fetch_term_skip:
  "fst (get_total_pages P web f (quote_plus P t)) = 0 \<Longrightarrow>
   fetch_term cfg P web f t
     = (f\<lparr>requests := requests f @ [first_page_url (quote_plus P t)]\<rparr>, False)"
  using get_total_pages_trace [of P web f "quote_plus P t"]
  by (cases "get_total_pages P web f (quote_plus P t)") (simp add: fetch_term_def)

text \<open>
  Claim C10. \<^verbatim>\<open>get_total_pages\<close> returns 0 when the fetch of the first results page
  returns \<^verbatim>\<open>None\<close> (or an empty text), and when an exception is raised while the page
  count is extracted from the fetched page \<open>body\<close>. And when \<^verbatim>\<open>get_total_pages\<close> returns
  0 for the term \<open>t\<close>, the round of \<^verbatim>\<open>_fetch_pages\<close> for \<open>t\<close> changes nothing but the
  trace of requests, to which it adds the one request made by \<^verbatim>\<open>get_total_pages\<close>
  itself: no results page of the term is fetched after it and nothing is queued, and
  \<^verbatim>\<open>_fetch_pages\<close> goes on with the terms \<open>ts\<close> that follow.
\<close>

theorem get_total_pages_failure:
  "(falsy (web (length (requests f)) (first_page_url enc)) \<longrightarrow>
      fst (get_total_pages P web f enc) = 0)
   \<and> (web (length (requests f)) (first_page_url enc) = Some body
      \<and> parse_total_pages P body = Inl Exception \<longrightarrow>
        fst (get_total_pages P web f enc) = 0)
   \<and> (fst (get_total_pages P web f (quote_plus P t)) = 0 \<longrightarrow>
        fetch_term cfg P web f t
          = (f\<lparr>requests := requests f @ [first_page_url (quote_plus P t)]\<rparr>, False)
      \<and> fetch_terms cfg P web f (t # ts)
          = fetch_terms cfg P web
              (f\<lparr>requests := requests f @ [first_page_url (quote_plus P t)]\<rparr>) ts)"
proof (intro conjI impI)
  assume "falsy (web (length (requests f)) (first_page_url enc))"
  then show "fst (get_total_pages P web f enc) = 0"
    by (cases "web (length (requests f)) (first_page_url enc)")
       (simp_all add: get_total_pages_def do_fetch_def)
next
  assume "web (length (requests f)) (first_page_url enc) = Some body
      \<and> parse_total_pages P body = Inl Exception"
  then show "fst (get_total_pages P web f enc) = 0"
    by (simp add: get_total_pages_def do_fetch_def)
next
  assume z: "fst (get_total_pages P web f (quote_plus P t)) = 0"
  then show "fetch_term cfg P web f t
          = (f\<lparr>requests := requests f @ [first_page_url (quote_plus P t)]\<rparr>, False)"
    by (rule fetch_term_skip)
  then show "fetch_terms cfg P web f (t # ts)
          = fetch_terms cfg P web
              (f\<lparr>requests := requests f @ [first_page_url (quote_plus P t)]\<rparr>) ts"
    by simp
qed

theorem get_total_pages_failure_witness:
  "falsy (web_down (length (requests (Fetcher [] (ProgressTracker 5 2) [])))
            (first_page_url ''Koch''))
   \<and> fst (get_total_pages raising_parser web_down (Fetcher [] (ProgressTracker 5 2) [])
            ''Koch'') = 0
   \<and> web_echo (length (requests (Fetcher [] (ProgressTracker 5 2) []))) (first_page_url ''Koch'')
       = Some ''https://www.jobs.ch/en/vacancies/?page=1&term=Koch''
   \<and> parse_total_pages raising_parser ''https://www.jobs.ch/en/vacancies/?page=1&term=Koch''
       = Inl Exception
   \<and> fst (get_total_pages raising_parser web_echo (Fetcher [] (ProgressTracker 5 2) [])
            ''Koch'') = 0
   \<and> fetch_term small_config raising_parser web_echo
        (Fetcher [] (ProgressTracker 5 2) []) ''Koch''
       = ((Fetcher [] (ProgressTracker 5 2) [])
            \<lparr>requests := [''https://www.jobs.ch/en/vacancies/?page=1&term=Koch'']\<rparr>, False)
   \<and> fetch_pages small_config raising_parser web_echo [''Koch'', ''Arzt'']
        (Fetcher [] (ProgressTracker 5 2) [])
       = (Fetcher [] (ProgressTracker 5 2) [])
            \<lparr>requests := [''https://www.jobs.ch/en/vacancies/?page=1&term=Koch'',
                          ''https://www.jobs.ch/en/vacancies/?page=1&term=Arzt'']\<rparr>"
  using get_total_pages_failure
    [where web = web_echo and f = "Fetcher [] (ProgressTracker 5 2) []" and enc = "''Koch''"
       and P = raising_parser
       and body = "''https://www.jobs.ch/en/vacancies/?page=1&term=Koch''"
       and t = "''Koch''" and cfg = small_config and ts = "[''Arzt'']"]
    get_total_pages_failure
    [where web = web_down and f = "Fetcher [] (ProgressTracker 5 2) []" and enc = "''Koch''"
       and P = raising_parser]
  by (simp add: raising_parser_def quiet_parser_def web_down_def web_echo_def
        parse_total_pages_def get_total_pages_def first_page_url_def Fetcher_def
        fetch_pages_def fetch_term_def do_fetch_def)



lemma push_link_eq:
  "push_link cfg f link =
     f\<lparr>job_queue := job_queue f @ [link],
       download_queue :=
         (if fetched_count f < HTML_FILE_LIMIT cfg then download_queue f @ [link]
          else download_queue f),
       fetched_count := fetched_count f + 1,
       progress := update_fetch (progress f)\<rparr>"
  by (simp add: push_link_def put_job_def below_limit_def put_download_def store_count_def
        notify_fetch_def)










text \<open>
  The example scenario of the specification, run by one discoverer: a target of 5 jobs, an
  archive cap of 2, two terms with 3 new addresses each on their first page. Discovery stops
  in the middle of the second term with 5 addresses on the scrape queue, the first 2 of
  them on the archive queue.
\<close>

lemma fetch_pages_example:
  "job_queue (fetch_pages small_config listing_parser web_echo [''t1'', ''t2'']
                (Fetcher [] (ProgressTracker 5 2) []))
     = [''a1'', ''a2'', ''a3'', ''b1'', ''b2'']
   \<and> download_queue (fetch_pages small_config listing_parser web_echo [''t1'', ''t2'']
                (Fetcher [] (ProgressTracker 5 2) []))
     = [''a1'', ''a2'']"
  by (simp add: fetch_pages_def fetch_term_def do_fetch_def Fetcher_def get_total_pages_def
        parse_total_pages_def to_int_def first_page_url_def page_url_def str_int_def
        str_nat.simps digit_char_def push_link_eq Let_def update_fetch_def
        ProgressTracker_def upto.simps small_config_def listing_parser_def web_echo_def)









section \<open>Properties of the detail scraper\<close>

lemma scrape_job_seen_before:
  "job_url \<in> seen_jobs s \<Longrightarrow> scrape_job P web s job_url = (None, s)"
  by (simp add: scrape_job_def)

lemma scrape_job_failed:
  assumes "job_url \<notin> seen_jobs s" and "falsy (web (length (fetches s)) job_url)"
  shows "scrape_job P web s job_url
           = (None, s\<lparr>seen_jobs := insert job_url (seen_jobs s),
                      fetches := fetches s @ [job_url]\<rparr>)"
  using assms by (simp add: scrape_job_def Let_def)

lemma scrape_job_keeps:
  assumes "a \<in> seen_jobs s"
  shows "a \<in> seen_jobs (snd (scrape_job P web s u))
       \<and> filter (\<lambda>j. url j = a) (scraped_jobs (snd (scrape_job P web s u)))
           = filter (\<lambda>j. url j = a) (scraped_jobs s)
       \<and> count_list (fetches (snd (scrape_job P web s u))) a = count_list (fetches s) a"
proof (cases "u \<in> seen_jobs s")
  case True
  then show ?thesis using assms by (simp add: scrape_job_def)
next
  case False
  with assms have "u \<noteq> a" by auto
  with assms False show ?thesis
    by (simp add: scrape_job_def Let_def)
qed

lemma worker_keeps:
  "a \<in> seen_jobs s \<Longrightarrow>
     a \<in> seen_jobs (worker P web s queue)
   \<and> filter (\<lambda>j. url j = a) (scraped_jobs (worker P web s queue))
       = filter (\<lambda>j. url j = a) (scraped_jobs s)
   \<and> count_list (fetches (worker P web s queue)) a = count_list (fetches s) a"
proof (induction queue arbitrary: s)
  case Nil
  then show ?case by simp
next
  case (Cons u queue)
  from scrape_job_keeps [OF Cons.prems, of P web u]
  have k: "a \<in> seen_jobs (snd (scrape_job P web s u))"
    and e: "filter (\<lambda>j. url j = a) (scraped_jobs (snd (scrape_job P web s u)))
           = filter (\<lambda>j. url j = a) (scraped_jobs s)"
       "count_list (fetches (snd (scrape_job P web s u))) a = count_list (fetches s) a"
    by simp_all
  from Cons.IH [OF k] e show ?case by simp
qed

text \<open>
  Claim C7. Let \<open>job_url\<close> be an address the scraper has not seen, whose fetch fails
  (\<^verbatim>\<open>fetch_page\<close> returns \<^verbatim>\<open>None\<close>, or an empty text, which \<^verbatim>\<open>scrape_job\<close> treats alike).
  Then \<^verbatim>\<open>scrape_job\<close> returns \<^verbatim>\<open>None\<close> and changes the scraper only by adding the address to
  \<^verbatim>\<open>seen_jobs\<close> (and the one fetch to the trace): \<^verbatim>\<open>scraped_jobs\<close>, \<^verbatim>\<open>job_id\<close> and the
  tracker are as before. A later \<^verbatim>\<open>scrape_job\<close> on the same address returns \<^verbatim>\<open>None\<close> and
  changes nothing, whatever the network \<open>web'\<close> would answer now; and whatever queue a
  worker processes afterwards, no record for the address is added to \<^verbatim>\<open>scraped_jobs\<close> and
  the address is not fetched again.
\<close>

theorem scrape_job_drops_failed_address:
  assumes "job_url \<notin> seen_jobs s" and "falsy (web (length (fetches s)) job_url)"
  shows "scrape_job P web s job_url
           = (None, s\<lparr>seen_jobs := insert job_url (seen_jobs s),
                      fetches := fetches s @ [job_url]\<rparr>)
       \<and> (\<forall>web'. scrape_job P web' (snd (scrape_job P web s job_url)) job_url
                  = (None, snd (scrape_job P web s job_url)))
       \<and> (\<forall>web' queue.
            filter (\<lambda>j. url j = job_url)
              (scraped_jobs (worker P web' (snd (scrape_job P web s job_url)) queue))
              = filter (\<lambda>j. url j = job_url) (scraped_jobs s)
          \<and> count_list
              (fetches (worker P web' (snd (scrape_job P web s job_url)) queue)) job_url
              = count_list (fetches s) job_url + 1)"
proof -
  let ?s1 = "s\<lparr>seen_jobs := insert job_url (seen_jobs s), fetches := fetches s @ [job_url]\<rparr>"
  have r: "scrape_job P web s job_url = (None, ?s1)"
    using assms by (rule scrape_job_failed)
  have seen: "job_url \<in> seen_jobs ?s1" by simp
  show ?thesis
    using worker_keeps [OF seen] scrape_job_seen_before [OF seen]
    by (simp add: r)
qed

theorem scrape_job_drops_failed_address_witness:
  "''https://www.jobs.ch/en/vacancies/detail/a'' \<notin> seen_jobs (Scraper (ProgressTracker 5 2))
   \<and> falsy (web_down (length (fetches (Scraper (ProgressTracker 5 2))))
              ''https://www.jobs.ch/en/vacancies/detail/a'')
   \<and> scrape_job quiet_parser web_down (Scraper (ProgressTracker 5 2))
        ''https://www.jobs.ch/en/vacancies/detail/a''
       = (None, \<lparr>seen_jobs = {''https://www.jobs.ch/en/vacancies/detail/a''}, job_id = 1,
                 scraped_jobs = [], progress_sc = ProgressTracker 5 2,
                 fetches = [''https://www.jobs.ch/en/vacancies/detail/a'']\<rparr>)
   \<and> scrape_job quiet_parser web_echo
        (snd (scrape_job quiet_parser web_down (Scraper (ProgressTracker 5 2))
                ''https://www.jobs.ch/en/vacancies/detail/a''))
        ''https://www.jobs.ch/en/vacancies/detail/a''
       = (None, \<lparr>seen_jobs = {''https://www.jobs.ch/en/vacancies/detail/a''}, job_id = 1,
                 scraped_jobs = [], progress_sc = ProgressTracker 5 2,
                 fetches = [''https://www.jobs.ch/en/vacancies/detail/a'']\<rparr>)"
  using scrape_job_drops_failed_address
    [of "''https://www.jobs.ch/en/vacancies/detail/a''" "Scraper (ProgressTracker 5 2)"
        web_down quiet_parser]
  by (simp add: Scraper_def web_down_def scrape_job_def Let_def)

text \<open>
  A scrape that succeeds, for comparison: the record gets the next id, the id counter
  advances and the record is appended to \<^verbatim>\<open>scraped_jobs\<close>.
\<close>

lemma scrape_job_example:
  "scrape_job quiet_parser web_echo (Scraper (ProgressTracker 5 2)) ''https://x''
     = (Some \<lparr>id' = 1, url = ''https://x'', title = [], publication_date = ''N/A'',
              workload = ''N/A'', contract_type = ''N/A'', salary = ''N/A'',
              languages = ''N/A'', place_of_work = ''N/A''\<rparr>,
        \<lparr>seen_jobs = {''https://x''}, job_id = 2,
         scraped_jobs = [\<lparr>id' = 1, url = ''https://x'', title = [],
                          publication_date = ''N/A'', workload = ''N/A'',
                          contract_type = ''N/A'', salary = ''N/A'', languages = ''N/A'',
                          place_of_work = ''N/A''\<rparr>],
         progress_sc = ProgressTracker 5 2, fetches = [''https://x'']\<rparr>)"
  by (simp add: scrape_job_def Scraper_def web_echo_def quiet_parser_def or_na_def Let_def
        update_scrape_def ProgressTracker_def)

section \<open>Properties of the raw-page archiver\<close>

lemma digit_char_val: "d < 10 \<Longrightarrow> (of_char (digit_char d) :: nat) = 48 + d"
proof -
  assume "d < 10"
  then have "d = 0 \<or> d = 1 \<or> d = 2 \<or> d = 3 \<or> d = 4 \<or> d = 5 \<or> d = 6 \<or> d = 7
      \<or> d = 8 \<or> d = 9"
    by arith
  then show ?thesis by (elim disjE) (simp_all add: digit_char_def)
qed

lemma nat_of_digits_snoc:
  "nat_of_digits (s @ [c]) = 10 * nat_of_digits s + (of_char c - 48)"
  by (simp add: nat_of_digits_def)

lemma nat_of_digits_str_nat: "nat_of_digits (str_nat n) = n"
proof (induction n rule: str_nat.induct)
  case (1 n)
  show ?case
  proof (cases "n < 10")
    case True
    then show ?thesis
      by (subst str_nat.simps) (simp add: nat_of_digits_def digit_char_val)
  next
    case False
    then have "nat_of_digits (str_nat (n div 10)) = n div 10" using 1 by simp
    with False show ?thesis
      by (subst str_nat.simps) (simp add: nat_of_digits_snoc digit_char_val)
  qed
qed

lemma str_nat_inj: "str_nat a = str_nat b \<Longrightarrow> a = b"
  by (metis nat_of_digits_str_nat)

lemma html_filename_inj:
  "0 \<le> a \<Longrightarrow> 0 \<le> b \<Longrightarrow> html_filename a = html_filename b \<Longrightarrow> a = b"
  by (auto simp: html_filename_def str_int_def dest!: str_nat_inj)

lemma html_filename_inj_on: "inj_on html_filename {1..n}"
  by (rule inj_onI) (auto intro: html_filename_inj)

lemma Downloader_inv: "download_inv cfg files (Downloader p files old_archive)"
  by (simp add: download_inv_def Downloader_def)

lemma download_inv_progress:
  "download_inv cfg files (d\<lparr>progress_dl := q\<rparr>) = download_inv cfg files d"
  by (simp add: download_inv_def)

lemma download_step_inv:
  assumes "download_inv cfg files d" and "\<not> num_html_saved d \<ge> HTML_FILE_LIMIT cfg"
  shows "download_inv cfg files
           (d\<lparr>num_html_saved := num_html_saved d + 1,
              local_html_folder :=
                (local_html_folder d)(html_filename (num_html_saved d + 1) \<mapsto> h),
              progress_dl := q\<rparr>)"
proof -
  have "{1..num_html_saved d + 1} = insert (num_html_saved d + 1) {1..num_html_saved d}"
    using assms(1) by (auto simp: download_inv_def)
  then show ?thesis using assms by (auto simp: download_inv_def)
qed

lemma download_loop_inv:
  "download_inv cfg files d \<Longrightarrow>
   download_inv cfg files (fst (download_loop cfg web d k queue))"
proof (induction queue arbitrary: d k)
  case Nil
  then show ?case by simp
next
  case (Cons job_url queue)
  show ?case
    using Cons.prems Cons.IH [OF Cons.prems]
          Cons.IH [OF download_step_inv [OF Cons.prems]]
    by (simp add: Let_def)
qed

lemma download_jobs_inv:
  assumes "download_inv cfg files d" and "download_jobs cfg web d queue = Some d'"
  shows "download_inv cfg files d'"
proof (cases "queue = []")
  case True
  then show ?thesis using assms by (simp add: download_jobs_def)
next
  case False
  obtain d1 all_marked where dl: "download_loop cfg web d 0 queue = (d1, all_marked)"
    by (cases "download_loop cfg web d 0 queue")
  have "download_inv cfg files d1"
    using download_loop_inv [OF assms(1), of web 0 queue] dl by simp
  moreover have "d' = d1\<lparr>progress_dl := (progress_dl d1)\<lparr>downloading_done := True\<rparr>\<rparr>"
    using False assms(2) dl by (simp add: download_jobs_def split: if_splits)
  ultimately show ?thesis by (simp add: download_inv_progress)
qed

lemma full_folder:
  assumes "download_inv cfg files d"
    and "dom files \<subseteq> html_filename ` {1..HTML_FILE_LIMIT cfg}"
    and "num_html_saved d = HTML_FILE_LIMIT cfg"
  shows "dom (local_html_folder d) = html_filename ` {1..HTML_FILE_LIMIT cfg}"
    and "card (dom (local_html_folder d)) = nat (HTML_FILE_LIMIT cfg)"
proof -
  show d: "dom (local_html_folder d) = html_filename ` {1..HTML_FILE_LIMIT cfg}"
    using assms by (auto simp: download_inv_def)
  show "card (dom (local_html_folder d)) = nat (HTML_FILE_LIMIT cfg)"
    by (simp add: d card_image [OF html_filename_inj_on])
qed

lemma folder_names:
  assumes "download_inv cfg files d" and "num_html_saved d = HTML_FILE_LIMIT cfg"
  shows "dom (local_html_folder d) = dom files \<union> html_filename ` {1..HTML_FILE_LIMIT cfg}"
  using assms by (simp add: download_inv_def)

lemma download_jobs_example:
  "download_jobs small_config web_echo (Downloader (ProgressTracker 5 2) Map.empty None)
     [''https://a'', ''ftp://b'', ''https://c'']
   = Some \<lparr>num_html_saved = 2,
           local_html_folder = [''job_1.html'' \<mapsto> ''https://a'', ''job_2.html'' \<mapsto> ''https://c''],
           archive = None,
           progress_dl = (ProgressTracker 5 2)\<lparr>downloaded := 2, downloading_done := True\<rparr>\<rparr>"
  by (simp add: download_jobs_def Downloader_def small_config_def web_echo_def Let_def
        html_filename_def str_int_def str_nat.simps digit_char_def update_download_def
        ProgressTracker_def)

text \<open>
  Claim C8, as stated, fails when the raw-page folder is not empty at the start:
  \<^verbatim>\<open>Downloader.__init__\<close> creates the folder when it is missing and never empties it, and
  \<^verbatim>\<open>zip_html_files\<close> archives every file under it. With an archive cap of 2 and a file
  \<^verbatim>\<open>job_3.html\<close> left in the folder (by an earlier run with a higher cap), two pages are
  saved, which is exactly the cap, and the archive has 3 entries.
\<close>

theorem zip_html_files_stale_counterexample:
  "download_jobs small_config web_echo
     (Downloader (ProgressTracker 5 2) [''job_3.html'' \<mapsto> ''old''] None)
     [''https://a'', ''https://c'']
   = Some \<lparr>num_html_saved = 2,
           local_html_folder =
             [''job_3.html'' \<mapsto> ''old'', ''job_1.html'' \<mapsto> ''https://a'',
              ''job_2.html'' \<mapsto> ''https://c''],
           archive = None,
           progress_dl = (ProgressTracker 5 2)\<lparr>downloaded := 2, downloading_done := True\<rparr>\<rparr>
   \<and> HTML_FILE_LIMIT small_config = 2
   \<and> archive (zip_html_files small_config ZipOk
        \<lparr>num_html_saved = 2,
         local_html_folder =
           [''job_3.html'' \<mapsto> ''old'', ''job_1.html'' \<mapsto> ''https://a'',
            ''job_2.html'' \<mapsto> ''https://c''],
         archive = None,
         progress_dl = (ProgressTracker 5 2)\<lparr>downloaded := 2, downloading_done := True\<rparr>\<rparr>)
       = Some [''job_3.html'' \<mapsto> ''old'', ''job_1.html'' \<mapsto> ''https://a'',
               ''job_2.html'' \<mapsto> ''https://c'']
   \<and> card (dom [''job_3.html'' \<mapsto> ''old'', ''job_1.html'' \<mapsto> ''https://a'',
                 ''job_2.html'' \<mapsto> ''https://c'']) = 3"
  by (simp add: download_jobs_def Downloader_def small_config_def web_echo_def Let_def
        html_filename_def str_int_def str_nat.simps digit_char_def update_download_def
        ProgressTracker_def zip_html_files_def)

text \<open>
  Claim C8, amended. In every downloader state with fewer than \<^verbatim>\<open>HTML_FILE_LIMIT\<close> pages
  saved, \<^verbatim>\<open>zip_html_files\<close> returns the state unchanged: no archive is created or modified,
  whatever writing one would have met. And let \<^verbatim>\<open>download_jobs\<close> return with \<open>d'\<close> on a
  \<^verbatim>\<open>Downloader\<close> that found the files \<open>files\<close> in the raw-page folder. If exactly
  \<^verbatim>\<open>HTML_FILE_LIMIT\<close> pages were saved, the archive written by \<^verbatim>\<open>zip_html_files\<close> is the
  content of the folder: one entry for every file found at the start and for each of
  \<^verbatim>\<open>job_1.html\<close> to \<^verbatim>\<open>job_<cap>.html\<close>, and no other. These are \<^verbatim>\<open>HTML_FILE_LIMIT\<close>
  entries when the folder held at the start no file with another name (none, on a first
  run).
\<close>

theorem zip_html_files_folder:
  "(num_html_saved d < HTML_FILE_LIMIT cfg \<longrightarrow> zip_html_files cfg io d = d)
   \<and> (download_jobs cfg web (Downloader p files old_archive) queue = Some d'
        \<and> num_html_saved d' = HTML_FILE_LIMIT cfg \<longrightarrow>
      archive (zip_html_files cfg ZipOk d') = Some (local_html_folder d')
      \<and> dom (local_html_folder d') = dom files \<union> html_filename ` {1..HTML_FILE_LIMIT cfg}
      \<and> (dom files \<subseteq> html_filename ` {1..HTML_FILE_LIMIT cfg} \<longrightarrow>
            card (dom (local_html_folder d')) = nat (HTML_FILE_LIMIT cfg)))"
proof (intro conjI impI)
  assume "num_html_saved d < HTML_FILE_LIMIT cfg"
  then show "zip_html_files cfg io d = d" by (simp add: zip_html_files_def)
next
  assume a: "download_jobs cfg web (Downloader p files old_archive) queue = Some d'
        \<and> num_html_saved d' = HTML_FILE_LIMIT cfg"
  then have inv: "download_inv cfg files d'"
    using download_jobs_inv [OF Downloader_inv] by blast
  from a show "archive (zip_html_files cfg ZipOk d') = Some (local_html_folder d')"
    by (simp add: zip_html_files_def)
  from a inv
  show "dom (local_html_folder d') = dom files \<union> html_filename ` {1..HTML_FILE_LIMIT cfg}"
    by (intro folder_names) simp_all
  assume "dom files \<subseteq> html_filename ` {1..HTML_FILE_LIMIT cfg}"
  with a full_folder(2) [OF inv]
  show "card (dom (local_html_folder d')) = nat (HTML_FILE_LIMIT cfg)"
    by simp
qed

theorem zip_html_files_folder_witness:
  "num_html_saved (Downloader (ProgressTracker 5 2) Map.empty None)
     < HTML_FILE_LIMIT small_config
   \<and> zip_html_files small_config ZipOk (Downloader (ProgressTracker 5 2) Map.empty None)
       = Downloader (ProgressTracker 5 2) Map.empty None
   \<and> download_jobs small_config web_echo (Downloader (ProgressTracker 5 2) Map.empty None)
        [''https://a'', ''ftp://b'', ''https://c'']
       = Some \<lparr>num_html_saved = 2,
               local_html_folder =
                 [''job_1.html'' \<mapsto> ''https://a'', ''job_2.html'' \<mapsto> ''https://c''],
               archive = None,
               progress_dl = (ProgressTracker 5 2)\<lparr>downloaded := 2, downloading_done := True\<rparr>\<rparr>
   \<and> dom (Map.empty :: string \<rightharpoonup> string) \<subseteq> html_filename ` {1..HTML_FILE_LIMIT small_config}
   \<and> archive (zip_html_files small_config ZipOk
        \<lparr>num_html_saved = 2,
         local_html_folder =
           [''job_1.html'' \<mapsto> ''https://a'', ''job_2.html'' \<mapsto> ''https://c''],
         archive = None,
         progress_dl = (ProgressTracker 5 2)\<lparr>downloaded := 2, downloading_done := True\<rparr>\<rparr>)
       = Some [''job_1.html'' \<mapsto> ''https://a'', ''job_2.html'' \<mapsto> ''https://c'']
   \<and> card (dom [''job_1.html'' \<mapsto> ''https://a'', ''job_2.html'' \<mapsto> ''https://c'']) = 2"
proof -
  let ?d0 = "Downloader (ProgressTracker 5 2) Map.empty None"
  let ?d' = "\<lparr>num_html_saved = 2,
              local_html_folder =
                [''job_1.html'' \<mapsto> ''https://a'', ''job_2.html'' \<mapsto> ''https://c''],
              archive = None,
              progress_dl =
                (ProgressTracker 5 2)\<lparr>downloaded := 2, downloading_done := True\<rparr>\<rparr>"
  have below: "num_html_saved ?d0 < HTML_FILE_LIMIT small_config"
    by (simp add: Downloader_def small_config_def)
  have run: "download_jobs small_config web_echo ?d0
               [''https://a'', ''ftp://b'', ''https://c''] = Some ?d'"
    by (rule download_jobs_example)
  have clean: "dom (Map.empty :: string \<rightharpoonup> string)
                 \<subseteq> html_filename ` {1..HTML_FILE_LIMIT small_config}"
    by simp
  have full: "num_html_saved ?d' = HTML_FILE_LIMIT small_config"
    by (simp add: small_config_def)
  from zip_html_files_folder
    [where d = ?d0 and cfg = small_config and io = ZipOk and web = web_echo
       and p = "ProgressTracker 5 2" and files = Map.empty and old_archive = None
       and queue = "[''https://a'', ''ftp://b'', ''https://c'']" and d' = ?d']
    below run clean full
  have noop: "zip_html_files small_config ZipOk ?d0 = ?d0"
    and arch: "archive (zip_html_files small_config ZipOk ?d') = Some (local_html_folder ?d')"
    and count: "card (dom (local_html_folder ?d')) = nat (HTML_FILE_LIMIT small_config)"
    by blast+
  from count have "card (dom [''job_1.html'' \<mapsto> ''https://a'', ''job_2.html'' \<mapsto> ''https://c''])
        = (2::nat)"
    by (simp add: small_config_def)
  with below noop run clean arch show ?thesis
    by simp
qed


end
